theory Spec2Isabelle
  imports Complex_Main
begin

section \<open>Data model (types.ts)\<close>

text \<open>
  The TypeScript type \<open>number\<close> is modelled by \<^typ>\<open>real\<close>: the finite values, without
  rounding. Strings are \<^typ>\<open>string\<close>.
\<close>

datatype AppView = View_form | View_map | View_dashboard

datatype TreeCondition = HEALTHY | DAMAGED | DEAD

datatype ProximityToBuilding = Prox_None | Near | Far

record CarbonMetrics =
  biomass :: real
  carbonStored :: real
  co2Sequestrated :: real

record AnnualMonetaryValue =
  total :: real
  carbon :: real
  stormwater :: real
  airQuality :: real
  energy :: real

record EcosystemServices =
  stormwaterInterceptedLiters :: real
  airPollutionRemovedGrams :: real
  energySavingsIDR :: real
  annualMonetaryValue :: AnnualMonetaryValue

record TreeAnalysisResult =
  species :: string
  latitude :: real
  longitude :: real
  condition :: TreeCondition
  estimatedDbh :: real
  estimatedHeight :: real

text \<open>
  \<open>Omit<TreeData, 'id' | 'carbon' | 'ecosystemServices'>\<close> is the record \<open>NewTreeData\<close>;
  \<open>TreeData\<close> extends it with the three omitted fields. The field \<open>id\<close> is called
  \<open>tree_id\<close>, since \<open>id\<close> is the identity function of HOL, and \<open>notes\<close> is
  \<open>tree_notes\<close>, since \<open>notes\<close> is a keyword.
\<close>

record NewTreeData =
  species :: string
  dbh :: real
  height :: real
  condition :: TreeCondition
  proximityToBuilding :: ProximityToBuilding
  tree_notes :: string
  photo :: string
  latitude :: real
  longitude :: real
  inventoryDate :: string

record TreeData = NewTreeData +
  tree_id :: real
  carbon :: CarbonMetrics
  ecosystemServices :: EcosystemServices

section \<open>The Estimator\<close>

text \<open>
  Modelled from the spec: \<open>calculateCarbonMetrics\<close> (services/carbonCalculator) and
  \<open>calculateEcosystemServices\<close> (services/ecosystemServiceCalculator) are imported by the
  sources but their files are not among them. The spec describes them as pure functions
  without side effects and leaves their constants open, so they are the two fields of a
  record of functions that every operation below takes as its first argument; nothing is
  assumed about what they compute.
\<close>

record Estimator =
  calculateCarbonMetrics :: "real \<Rightarrow> real \<Rightarrow> TreeCondition \<Rightarrow> CarbonMetrics"
  calculateEcosystemServices :: "real \<Rightarrow> ProximityToBuilding \<Rightarrow> TreeCondition \<Rightarrow> EcosystemServices"

section \<open>The seed dataset (constants.ts)\<close>

text \<open>
  \<open>new Date(date).toISOString()\<close> is a function of the platform; \<open>createTree\<close> takes it
  as the parameter \<open>toISOString\<close>.
\<close>

definition createTree ::
  "Estimator \<Rightarrow> (string \<Rightarrow> string) \<Rightarrow> real \<Rightarrow> string \<Rightarrow> real \<Rightarrow> real \<Rightarrow> TreeCondition \<Rightarrow>
   ProximityToBuilding \<Rightarrow> string \<Rightarrow> string \<Rightarrow> real \<Rightarrow> real \<Rightarrow> string \<Rightarrow> TreeData" where
  "createTree E toISOString i sp d h c p n photoSeed lat lon date =
     (let carbon = calculateCarbonMetrics E d h c;
          ecosystemServices = calculateEcosystemServices E d p c
      in \<lparr> species = sp, dbh = d, height = h, condition = c, proximityToBuilding = p,
           tree_notes = n, photo = ''https://picsum.photos/seed/'' @ photoSeed @ ''/400/300'',
           latitude = lat, longitude = lon, inventoryDate = toISOString date,
           tree_id = i, carbon = carbon, ecosystemServices = ecosystemServices \<rparr>)"

definition initialTrees :: "Estimator \<Rightarrow> (string \<Rightarrow> string) \<Rightarrow> TreeData list" where
  "initialTrees E toISOString =
     [ createTree E toISOString 1 ''Jati'' 60 25 HEALTHY Near
         ''Pohon jati tua yang megah di taman utama, memberikan keteduhan yang luar biasa.''
         ''oak'' 34.0522 (-118.2437) ''2023-10-26T10:00:00Z'',
       createTree E toISOString 2 ''Pinus'' 45 30 HEALTHY Far
         ''Pohon pinus tinggi di dekat sungai.''
         ''pine'' 34.055 (-118.245) ''2023-10-26T11:30:00Z'',
       createTree E toISOString 3 ''Mapel'' 50 22 DAMAGED Near
         ''Cabang patah akibat badai baru-baru ini. Memberikan keteduhan pada bangku di dekatnya.''
         ''maple'' 34.051 (-118.24) ''2023-10-27T09:00:00Z'' ]"

section \<open>The inventory store (MainApp)\<close>

record BulkUploadFailure =
  fileName :: string
  error :: string

text \<open>The field \<open>total\<close> of the source is \<open>total_files\<close> here.\<close>

record BulkUploadProgress =
  total_files :: nat
  processed :: nat
  successes :: nat
  failures :: "BulkUploadFailure list"

text \<open>The React state of \<open>MainApp\<close> that the handlers below read and write.\<close>

record MainApp =
  view :: AppView
  trees :: "TreeData list"
  editingTree :: "TreeData option"
  isBulkUploading :: bool
  bulkUploadProgress :: "BulkUploadProgress option"

text \<open>
  \<open>handleAddTree\<close>: \<open>Date.now()\<close> is the parameter \<open>now\<close>. The spread
  \<open>{...newTreeData, id, carbon, ecosystemServices}\<close> copies the ten fields.
\<close>

definition handleAddTree :: "Estimator \<Rightarrow> real \<Rightarrow> NewTreeData \<Rightarrow> MainApp \<Rightarrow> MainApp" where
  "handleAddTree E now newTreeData s =
     (let carbonMetrics = calculateCarbonMetrics E (dbh newTreeData) (height newTreeData)
                            (NewTreeData.condition newTreeData);
          ecoServices = calculateEcosystemServices E (dbh newTreeData)
                            (proximityToBuilding newTreeData) (NewTreeData.condition newTreeData);
          newTree = \<lparr> species = NewTreeData.species newTreeData, dbh = dbh newTreeData,
                      height = height newTreeData,
                      condition = NewTreeData.condition newTreeData,
                      proximityToBuilding = proximityToBuilding newTreeData,
                      tree_notes = tree_notes newTreeData, photo = photo newTreeData,
                      latitude = NewTreeData.latitude newTreeData,
                      longitude = NewTreeData.longitude newTreeData,
                      inventoryDate = inventoryDate newTreeData,
                      tree_id = now, carbon = carbonMetrics, ecosystemServices = ecoServices \<rparr>
      in s \<lparr> trees := newTree # trees s, view := View_dashboard \<rparr>)"

text \<open>\<open>handleUpdateTree\<close>: \<open>prevTrees.map(t => t.id === finalTree.id ? finalTree : t)\<close>.\<close>

definition handleUpdateTree :: "Estimator \<Rightarrow> TreeData \<Rightarrow> MainApp \<Rightarrow> MainApp" where
  "handleUpdateTree E updatedTree s =
     (let carbonMetrics = calculateCarbonMetrics E (dbh updatedTree) (height updatedTree)
                            (NewTreeData.condition updatedTree);
          ecoServices = calculateEcosystemServices E (dbh updatedTree)
                            (proximityToBuilding updatedTree) (NewTreeData.condition updatedTree);
          finalTree = updatedTree \<lparr> carbon := carbonMetrics, ecosystemServices := ecoServices \<rparr>
      in s \<lparr> trees := map (\<lambda>t. if tree_id t = tree_id finalTree then finalTree else t) (trees s),
             editingTree := None \<rparr>)"


section \<open>Browser storage\<close>

text \<open>
  A value thrown by the platform or by the code: \<open>Thrown m\<close>, where \<open>m\<close> is its \<open>message\<close>
  property when it has one. Thrown values are objects; a thrown \<open>undefined\<close> or \<open>null\<close>,
  on which reading \<open>message\<close> raises, is not modelled.
\<close>

datatype js_error = Thrown "string option"

text \<open>
  A \<open>Storage\<close> object (\<open>localStorage\<close>, \<open>sessionStorage\<close>). The source wraps its calls in
  \<open>try/catch\<close>, so the calls can raise: every call raises when access to the storage is
  denied, and \<open>setItem\<close> raises when the quota does not accept the new value. The stored
  values have type \<open>'v\<close>.
\<close>

record 'v Storage =
  denied :: bool
  accepts :: "'v \<Rightarrow> bool"
  items :: "string \<Rightarrow> 'v option"

definition SecurityError :: js_error where
  "SecurityError = Thrown (Some ''The operation is insecure.'')"

definition QuotaExceededError :: js_error where
  "QuotaExceededError = Thrown (Some ''The quota has been exceeded.'')"

definition getItem :: "'v Storage \<Rightarrow> string \<Rightarrow> js_error + 'v option" where
  "getItem st k = (if denied st then Inl SecurityError else Inr (items st k))"

definition setItem :: "'v Storage \<Rightarrow> string \<Rightarrow> 'v \<Rightarrow> js_error + 'v Storage" where
  "setItem st k v =
     (if denied st then Inl SecurityError
      else if accepts st v then Inr (st \<lparr> items := (items st)(k := Some v) \<rparr>)
      else Inl QuotaExceededError)"

definition removeItem :: "'v Storage \<Rightarrow> string \<Rightarrow> js_error + 'v Storage" where
  "removeItem st k =
     (if denied st then Inl SecurityError else Inr (st \<lparr> items := (items st)(k := None) \<rparr>))"

section \<open>Loading and persisting the collection (MainApp)\<close>

text \<open>
  The text stored under a key of \<open>localStorage\<close> is represented by what \<open>JSON.parse\<close> makes
  of it: the empty string (falsy, and not JSON), a non-empty string that is not JSON, or the
  JSON text of a value. The source only asks of a parsed value whether it is an array
  (\<open>Array.isArray\<close>), and then uses it as \<open>TreeData[]\<close>; stored arrays of other
  things, which the source would return as they are, have no counterpart here. \<open>JSON.stringify\<close> of a
  collection is the text of that array (on finite numbers and strings, parsing the text
  gives the value back).
\<close>

datatype json_value = Json_array "TreeData list" | Json_other

datatype item_text = Empty_text | Malformed_text | Json_text json_value

fun truthy :: "item_text \<Rightarrow> bool" where
  "truthy Empty_text = False"
| "truthy Malformed_text = True"
| "truthy (Json_text v) = True"

definition SyntaxError :: js_error where
  "SyntaxError = Thrown (Some ''Unexpected token'')"

fun JSON_parse :: "item_text \<Rightarrow> js_error + json_value" where
  "JSON_parse Empty_text = Inl SyntaxError"
| "JSON_parse Malformed_text = Inl SyntaxError"
| "JSON_parse (Json_text v) = Inr v"

definition JSON_stringify :: "TreeData list \<Rightarrow> item_text" where
  "JSON_stringify ts = Json_text (Json_array ts)"

definition treeInventoryData :: string where
  "treeInventoryData = ''treeInventoryData''"

text \<open>
  The body of the \<open>try\<close> block of the initializer of \<open>trees\<close>: \<open>Inr (Some ts)\<close> when it
  returns \<open>savedTrees\<close>, \<open>Inr None\<close> when it falls through, \<open>Inl e\<close> when it raises.
\<close>

definition load_try :: "item_text Storage \<Rightarrow> js_error + TreeData list option" where
  "load_try ls =
     (case getItem ls treeInventoryData of
        Inl e \<Rightarrow> Inl e
      | Inr None \<Rightarrow> Inr None
      | Inr (Some savedTreesJSON) \<Rightarrow>
          if truthy savedTreesJSON then
            (case JSON_parse savedTreesJSON of
               Inl e \<Rightarrow> Inl e
             | Inr (Json_array savedTrees) \<Rightarrow> Inr (Some savedTrees)
             | Inr Json_other \<Rightarrow> Inr None)
          else Inr None)"

text \<open>
  The initializer: the \<open>catch\<close> block calls \<open>localStorage.removeItem\<close>, outside any \<open>try\<close>,
  and then falls through to \<open>return initialTrees\<close>.
\<close>

definition load_trees ::
  "Estimator \<Rightarrow> (string \<Rightarrow> string) \<Rightarrow> item_text Storage \<Rightarrow> js_error + (TreeData list \<times> item_text Storage)" where
  "load_trees E toISOString ls =
     (case load_try ls of
        Inr (Some ts) \<Rightarrow> Inr (ts, ls)
      | Inr None \<Rightarrow> Inr (initialTrees E toISOString, ls)
      | Inl e \<Rightarrow>
          (case removeItem ls treeInventoryData of
             Inl e' \<Rightarrow> Inl e'
           | Inr ls' \<Rightarrow> Inr (initialTrees E toISOString, ls')))"

text \<open>The effect on \<open>[trees]\<close>: a failure of \<open>setItem\<close> is logged and nothing is stored.\<close>

definition persist_trees :: "TreeData list \<Rightarrow> item_text Storage \<Rightarrow> item_text Storage" where
  "persist_trees ts ls =
     (case setItem ls treeInventoryData (JSON_stringify ts) of
        Inr ls' \<Rightarrow> ls'
      | Inl e \<Rightarrow> ls)"

text \<open>Mounting \<open>MainApp\<close>: the initializer, then the effect on the loaded collection.\<close>

definition mount_MainApp ::
  "Estimator \<Rightarrow> (string \<Rightarrow> string) \<Rightarrow> item_text Storage \<Rightarrow> js_error + (TreeData list \<times> item_text Storage)" where
  "mount_MainApp E toISOString ls =
     (case load_trees E toISOString ls of
        Inl e \<Rightarrow> Inl e
      | Inr (ts, ls') \<Rightarrow> Inr (ts, persist_trees ts ls'))"

section \<open>Bulk upload (MainApp)\<close>

text \<open>
  An awaited promise resolves, rejects, or stays pending for ever; in the last case the
  \<open>await\<close> never returns.
\<close>

datatype 'a promise = Resolved 'a | Rejected js_error | Pending

text \<open>
  One file of the \<open>FileList\<close>, with what the platform does for it: what
  \<open>FileReader.readAsDataURL\<close> reports (its error event, or the data URL), whether the
  \<open>Image\<close> given that data URL fires \<open>onload\<close>, and what \<open>canvas.toDataURL\<close> gives for the
  drawn image (\<open>None\<close> when \<open>getContext('2d')\<close> is \<open>null\<close>). The calls of
  \<open>analyzeTreeImage\<close> (which may resolve to \<open>null\<close>) and of \<open>getCurrentPosition\<close> (with its
  timeout of five seconds) are taken to settle; the record holds their results, and the
  values of \<open>Date.now()\<close>, \<open>Math.random()\<close> and \<open>new Date().toISOString()\<close> read while the
  file is processed.
\<close>

record UploadFile =
  name :: string
  readAsDataURL_result :: "js_error + string"
  image_loads :: bool
  canvas_toDataURL :: "string option"
  analyzeTreeImage_result :: "js_error + TreeAnalysisResult option"
  getCurrentPosition_result :: "js_error + real \<times> real"
  date_now :: real
  math_random :: real
  date_iso :: string

definition new_Error :: "string \<Rightarrow> js_error" where
  "new_Error m = Thrown (Some m)"

text \<open>
  \<open>compressImage\<close>: the promise is rejected from \<open>reader.onerror\<close> and when the canvas has
  no context, and resolved from \<open>img.onload\<close>. The image has no \<open>onerror\<close> handler: when it
  does not load, nothing settles the promise.
\<close>

definition compressImage :: "UploadFile \<Rightarrow> string promise" where
  "compressImage file =
     (case readAsDataURL_result file of
        Inl errorEvent \<Rightarrow> Rejected errorEvent
      | Inr dataURL \<Rightarrow>
          if image_loads file then
            (case canvas_toDataURL file of
               None \<Rightarrow> Rejected (new_Error ''Could not get canvas context'')
             | Some jpeg \<Rightarrow> Resolved jpeg)
          else Pending)"

text \<open>
  The coordinates of the analysis: when one of them is falsy the position of the device is
  asked for, and a failure there raises a new error.
\<close>

definition locate :: "UploadFile \<Rightarrow> TreeAnalysisResult \<Rightarrow> js_error + TreeAnalysisResult" where
  "locate f a =
     (if TreeAnalysisResult.latitude a = 0 \<or> TreeAnalysisResult.longitude a = 0 then
        (case getCurrentPosition_result f of
           Inl geoError \<Rightarrow> Inl (new_Error ''AI tidak menemukan GPS & akses lokasi ditolak.'')
         | Inr (lat, lon) \<Rightarrow>
             Inr (a \<lparr> TreeAnalysisResult.latitude := lat, TreeAnalysisResult.longitude := lon \<rparr>))
      else Inr a)"

text \<open>
  The record of a file. Its identifier \<open>Date.now() + Math.random()\<close> is the exact sum here;
  the sum of the code is rounded to a double.
\<close>

definition bulk_tree :: "Estimator \<Rightarrow> UploadFile \<Rightarrow> string \<Rightarrow> TreeAnalysisResult \<Rightarrow> TreeData" where
  "bulk_tree E f compressedBase64 a =
     (let d = estimatedDbh a; h = estimatedHeight a; c = TreeAnalysisResult.condition a;
          carbonMetrics = calculateCarbonMetrics E d h c;
          ecoServices = calculateEcosystemServices E d Prox_None c
      in \<lparr> species = TreeAnalysisResult.species a, dbh = d, height = h, condition = c,
           proximityToBuilding = Prox_None,
           tree_notes = ''Ditambahkan melalui unggahan massal.'',
           photo = compressedBase64,
           latitude = TreeAnalysisResult.latitude a,
           longitude = TreeAnalysisResult.longitude a,
           inventoryDate = date_iso f,
           tree_id = date_now f + math_random f,
           carbon = carbonMetrics, ecosystemServices = ecoServices \<rparr>)"

text \<open>
  The \<open>try\<close> block after \<open>compressImage\<close> has resolved, up to \<open>newTree\<close>: the new record,
  or what was thrown.
\<close>

definition analyze_file :: "Estimator \<Rightarrow> UploadFile \<Rightarrow> string \<Rightarrow> js_error + TreeData" where
  "analyze_file E f compressedBase64 =
     (case analyzeTreeImage_result f of
        Inl e \<Rightarrow> Inl e
      | Inr None \<Rightarrow> Inl (new_Error ''AI tidak dapat mengidentifikasi pohon.'')
      | Inr (Some a) \<Rightarrow>
          if TreeAnalysisResult.species a = [] \<or> TreeAnalysisResult.species a = ''Tidak Diketahui''
          then Inl (new_Error ''AI tidak dapat mengidentifikasi pohon.'')
          else if estimatedDbh a = 0 \<or> estimatedHeight a = 0
          then Inl (new_Error ''AI tidak dapat mengestimasi dimensi.'')
          else (case locate f a of
                  Inl e \<Rightarrow> Inl e
                | Inr a' \<Rightarrow> Inr (bulk_tree E f compressedBase64 a')))"

definition try_block :: "Estimator \<Rightarrow> UploadFile \<Rightarrow> TreeData promise" where
  "try_block E f =
     (case compressImage f of
        Pending \<Rightarrow> Pending
      | Rejected e \<Rightarrow> Rejected e
      | Resolved compressedBase64 \<Rightarrow>
          (case analyze_file E f compressedBase64 of
             Inl e \<Rightarrow> Rejected e
           | Inr newTree \<Rightarrow> Resolved newTree))"

text \<open>\<open>err.message || 'Terjadi kesalahan tidak diketahui.'\<close>\<close>

fun error_message :: "js_error \<Rightarrow> string" where
  "error_message (Thrown None) = ''Terjadi kesalahan tidak diketahui.''"
| "error_message (Thrown (Some m)) = (if m = [] then ''Terjadi kesalahan tidak diketahui.'' else m)"

text \<open>
  The end of one iteration whose \<open>try\<close> block has settled: the record is prepended and a
  success counted, or the \<open>catch\<close> block appends a failure; then \<open>finally\<close> counts the file as
  processed. The updaters of the progress map \<open>null\<close> to \<open>null\<close>.
\<close>

definition bulk_step :: "MainApp \<Rightarrow> UploadFile \<Rightarrow> js_error + TreeData \<Rightarrow> MainApp" where
  "bulk_step s f r =
     (let s1 =
        (case r of
           Inr newTree \<Rightarrow>
             s \<lparr> trees := newTree # trees s,
                 bulkUploadProgress :=
                   map_option (\<lambda>prev. prev \<lparr> successes := successes prev + 1 \<rparr>) (bulkUploadProgress s) \<rparr>
         | Inl err \<Rightarrow>
             s \<lparr> bulkUploadProgress :=
                   map_option (\<lambda>prev. prev \<lparr> failures := failures prev @
                       [\<lparr> fileName = name f, error = error_message err \<rparr>] \<rparr>) (bulkUploadProgress s) \<rparr>)
      in s1 \<lparr> bulkUploadProgress :=
                map_option (\<lambda>prev. prev \<lparr> processed := processed prev + 1 \<rparr>) (bulkUploadProgress s1) \<rparr>)"

text \<open>
  What a call of \<open>handleBulkUpload\<close> comes to: it returns, in a state, or it never returns,
  and the component stays in the state reached when the \<open>await\<close> that never returns began.
\<close>

datatype bulk_outcome = Returned MainApp | Never_returns MainApp

fun outcome_state :: "bulk_outcome \<Rightarrow> MainApp" where
  "outcome_state (Returned s) = s"
| "outcome_state (Never_returns s) = s"

fun bulk_loop :: "Estimator \<Rightarrow> MainApp \<Rightarrow> UploadFile list \<Rightarrow> bulk_outcome" where
  "bulk_loop E s [] = Returned s"
| "bulk_loop E s (f # fs) =
     (case try_block E f of
        Pending \<Rightarrow> Never_returns s
      | Rejected err \<Rightarrow> bulk_loop E (bulk_step s f (Inl err)) fs
      | Resolved newTree \<Rightarrow> bulk_loop E (bulk_step s f (Inr newTree)) fs)"

definition handleBulkUpload :: "Estimator \<Rightarrow> UploadFile list \<Rightarrow> MainApp \<Rightarrow> bulk_outcome" where
  "handleBulkUpload E files s =
     bulk_loop E
       (s \<lparr> isBulkUploading := True,
            bulkUploadProgress :=
              Some \<lparr> total_files = length files, processed = 0, successes = 0, failures = [] \<rparr> \<rparr>)
       files"

section \<open>Login (App)\<close>

definition ADMIN_PASSWORD :: string where
  "ADMIN_PASSWORD = ''jaga-pohon-admin''"

definition isLoggedIn :: string where
  "isLoggedIn = ''isLoggedIn''"

record App =
  isAuthenticated :: bool
  isLoading :: bool
  sessionStorage :: "string Storage"

text \<open>The component as it is before its first effect runs, on a given session storage.\<close>

definition App_initial :: "string Storage \<Rightarrow> App" where
  "App_initial st = \<lparr> isAuthenticated = False, isLoading = True, sessionStorage = st \<rparr>"

text \<open>The effect that checks the session storage on the initial load.\<close>

definition session_check :: "App \<Rightarrow> App" where
  "session_check s =
     (case getItem (sessionStorage s) isLoggedIn of
        Inr v \<Rightarrow> s \<lparr> isAuthenticated := (v = Some ''true''), isLoading := False \<rparr>
      | Inl e \<Rightarrow> s \<lparr> isAuthenticated := False, isLoading := False \<rparr>)"

text \<open>\<open>handleLogin\<close> returns its result and the new state; the simulated delay is left out.\<close>

definition handleLogin :: "string \<Rightarrow> App \<Rightarrow> bool \<times> App" where
  "handleLogin password s =
     (if password = ADMIN_PASSWORD then
        (let st = (case setItem (sessionStorage s) isLoggedIn ''true'' of
                     Inr st' \<Rightarrow> st'
                   | Inl e \<Rightarrow> sessionStorage s)
         in (True, s \<lparr> sessionStorage := st, isAuthenticated := True \<rparr>))
      else (False, s))"

definition handleLogout :: "App \<Rightarrow> App" where
  "handleLogout s =
     (let st = (case removeItem (sessionStorage s) isLoggedIn of
                  Inr st' \<Rightarrow> st'
                | Inl e \<Rightarrow> sessionStorage s)
      in s \<lparr> sessionStorage := st, isAuthenticated := False \<rparr>)"

text \<open>
  What can happen to the component: a login attempt, a logout, and a reload of the page,
  which starts the component again on the same session storage.
\<close>

datatype App_event = Login string | Logout | Reload

fun App_step :: "App \<Rightarrow> App_event \<Rightarrow> App" where
  "App_step s (Login password) = snd (handleLogin password s)"
| "App_step s Logout = handleLogout s"
| "App_step s Reload = session_check (App_initial (sessionStorage s))"

definition App_run :: "App \<Rightarrow> App_event list \<Rightarrow> App" where
  "App_run s evs = foldl App_step s evs"

section \<open>Descriptions used in the statements\<close>

text \<open>The derived fields of a record are those the Estimator gives on its own measurements.\<close>

definition derived_consistent :: "Estimator \<Rightarrow> TreeData \<Rightarrow> bool" where
  "derived_consistent E t =
     (carbon t = calculateCarbonMetrics E (dbh t) (height t) (NewTreeData.condition t) \<and>
      ecosystemServices t =
        calculateEcosystemServices E (dbh t) (proximityToBuilding t) (NewTreeData.condition t))"

text \<open>Two records agree on the four measurements the Estimator reads.\<close>

definition same_measurements :: "'a NewTreeData_scheme \<Rightarrow> 'b NewTreeData_scheme \<Rightarrow> bool" where
  "same_measurements a b =
     (dbh a = dbh b \<and> height a = height b \<and> NewTreeData.condition a = NewTreeData.condition b \<and>
      proximityToBuilding a = proximityToBuilding b)"

text \<open>The record that \<open>handleUpdateTree\<close> puts in place of the matching ones.\<close>

definition finalTree :: "Estimator \<Rightarrow> TreeData \<Rightarrow> TreeData" where
  "finalTree E u =
     u \<lparr> carbon := calculateCarbonMetrics E (dbh u) (height u) (NewTreeData.condition u),
         ecosystemServices :=
           calculateEcosystemServices E (dbh u) (proximityToBuilding u) (NewTreeData.condition u) \<rparr>"

text \<open>
  The files of a bulk upload that are dealt with: those before the first one whose \<open>try\<close>
  block stays pending. Among them, the records of the files that succeed and the failure
  entries of those that fail, both in the order of the files.
\<close>

fun settles :: "'a promise \<Rightarrow> bool" where
  "settles Pending = False"
| "settles (Rejected e) = True"
| "settles (Resolved x) = True"

definition handled_files :: "UploadFile list \<Rightarrow> UploadFile list" where
  "handled_files files = takeWhile (\<lambda>f. settles (compressImage f)) files"

fun new_trees :: "Estimator \<Rightarrow> UploadFile list \<Rightarrow> TreeData list" where
  "new_trees E [] = []"
| "new_trees E (f # fs) =
     (case try_block E f of Resolved t \<Rightarrow> t # new_trees E fs | Rejected e \<Rightarrow> new_trees E fs
      | Pending \<Rightarrow> new_trees E fs)"

fun new_failures :: "Estimator \<Rightarrow> UploadFile list \<Rightarrow> BulkUploadFailure list" where
  "new_failures E [] = []"
| "new_failures E (f # fs) =
     (case try_block E f of
        Resolved t \<Rightarrow> new_failures E fs
      | Rejected e \<Rightarrow> \<lparr> fileName = name f, error = error_message e \<rparr> # new_failures E fs
      | Pending \<Rightarrow> new_failures E fs)"

text \<open>The state after the loop has dealt with one file.\<close>

definition bulk_loop_head :: "Estimator \<Rightarrow> MainApp \<Rightarrow> UploadFile \<Rightarrow> MainApp" where
  "bulk_loop_head E s f = outcome_state (bulk_loop E s [f])"

text \<open>
  The session is kept: the flag is set in the component and in a session storage that can be
  read and accepts the value.
\<close>

definition session_kept :: "App \<Rightarrow> bool" where
  "session_kept s =
     (isAuthenticated s \<and> \<not> denied (sessionStorage s) \<and> accepts (sessionStorage s) ''true'' \<and>
      items (sessionStorage s) isLoggedIn = Some ''true'')"

section \<open>Sample inputs\<close>

definition sample_Estimator :: Estimator where
  "sample_Estimator =
     \<lparr> calculateCarbonMetrics = (\<lambda>d h c.
         \<lparr> biomass = (if c = DEAD then 0 else d * h), carbonStored = d * h / 2,
           co2Sequestrated = d * h * 2 \<rparr>),
       calculateEcosystemServices = (\<lambda>d p c.
         \<lparr> stormwaterInterceptedLiters = d * 10, airPollutionRemovedGrams = d * 3,
           energySavingsIDR = (if p = Near then d * 100 else 0),
           annualMonetaryValue =
             \<lparr> total = d * 4, AnnualMonetaryValue.carbon = d, stormwater = d,
               airQuality = d, energy = d \<rparr> \<rparr>) \<rparr>"

definition sample_toISOString :: "string \<Rightarrow> string" where
  "sample_toISOString d = take 19 d @ ''.000Z''"

definition sample_new :: NewTreeData where
  "sample_new =
     \<lparr> species = ''Mangga'', dbh = 30, height = 12, condition = HEALTHY,
       proximityToBuilding = Far, tree_notes = ''halaman'', photo = ''data:image/jpeg;base64,AAAA'',
       latitude = -6.2, longitude = 106.8, inventoryDate = ''2024-01-01T00:00:00.000Z'' \<rparr>"

definition sample_tree :: TreeData where
  "sample_tree = createTree sample_Estimator sample_toISOString 2 ''Pinus'' 45 30 HEALTHY Far
     ''Pohon pinus tinggi di dekat sungai.'' ''pine'' 34.055 (-118.245) ''2023-10-26T11:30:00Z''"

definition sample_edit :: TreeData where
  "sample_edit = sample_tree \<lparr> dbh := 48, tree_notes := ''diukur ulang'' \<rparr>"

definition sample_MainApp :: MainApp where
  "sample_MainApp =
     \<lparr> view = View_form, trees = initialTrees sample_Estimator sample_toISOString,
       editingTree = None, isBulkUploading = False, bulkUploadProgress = None \<rparr>"

definition sample_analysis :: TreeAnalysisResult where
  "sample_analysis =
     \<lparr> TreeAnalysisResult.species = ''Beringin'', TreeAnalysisResult.latitude = 0,
       TreeAnalysisResult.longitude = 0, TreeAnalysisResult.condition = DAMAGED,
       estimatedDbh = 80, estimatedHeight = 18 \<rparr>"

definition good_file :: UploadFile where
  "good_file =
     \<lparr> name = ''a.jpg'', readAsDataURL_result = Inr ''data:image/jpeg;base64,QUJD'',
       image_loads = True, canvas_toDataURL = Some ''data:image/jpeg;base64,BBBB'',
       analyzeTreeImage_result = Inr (Some sample_analysis),
       getCurrentPosition_result = Inr (-6.9, 107.6),
       date_now = 1700000000000, math_random = 1 / 4,
       date_iso = ''2023-11-14T22:13:20.000Z'' \<rparr>"

definition bad_file :: UploadFile where
  "bad_file =
     \<lparr> name = ''b.jpg'', readAsDataURL_result = Inr ''data:image/jpeg;base64,REVG'',
       image_loads = True, canvas_toDataURL = Some ''data:image/jpeg;base64,CCCC'',
       analyzeTreeImage_result = Inr (Some (sample_analysis \<lparr> estimatedDbh := 0 \<rparr>)),
       getCurrentPosition_result = Inl (Thrown None),
       date_now = 1700000000500, math_random = 1 / 2,
       date_iso = ''2023-11-14T22:13:20.500Z'' \<rparr>"

text \<open>A file whose content is not an image that the browser can decode.\<close>

definition broken_file :: UploadFile where
  "broken_file =
     \<lparr> name = ''c.jpg'', readAsDataURL_result = Inr ''data:text/plain;base64,aGVsbG8='',
       image_loads = False, canvas_toDataURL = None,
       analyzeTreeImage_result = Inr (Some sample_analysis),
       getCurrentPosition_result = Inr (-6.9, 107.6),
       date_now = 1700000001000, math_random = 3 / 4,
       date_iso = ''2023-11-14T22:13:21.000Z'' \<rparr>"

definition empty_localStorage :: "item_text Storage" where
  "empty_localStorage = \<lparr> denied = False, accepts = (\<lambda>v. True), items = (\<lambda>k. None) \<rparr>"

definition full_localStorage :: "item_text Storage" where
  "full_localStorage = \<lparr> denied = False, accepts = (\<lambda>v. False), items = (\<lambda>k. None) \<rparr>"

definition malformed_localStorage :: "item_text Storage" where
  "malformed_localStorage =
     \<lparr> denied = False, accepts = (\<lambda>v. True),
       items = (\<lambda>k. if k = ''treeInventoryData'' then Some Malformed_text else None) \<rparr>"

text \<open>
  A storage to which access is refused, and a stored collection whose one record has derived
  fields that are not those the Estimator gives (written by another version of the
  calculators, say), with the state that the initializer loads from it.
\<close>

definition denied_localStorage :: "item_text Storage" where
  "denied_localStorage = \<lparr> denied = True, accepts = (\<lambda>v. True), items = (\<lambda>k. None) \<rparr>"

definition stale_tree :: TreeData where
  "stale_tree =
     sample_tree \<lparr> carbon := \<lparr> biomass = 1, carbonStored = 1, co2Sequestrated = 1 \<rparr> \<rparr>"

definition stale_localStorage :: "item_text Storage" where
  "stale_localStorage =
     \<lparr> denied = False, accepts = (\<lambda>v. True),
       items = (\<lambda>k. if k = ''treeInventoryData'' then Some (Json_text (Json_array [stale_tree]))
                     else None) \<rparr>"

definition stale_MainApp :: MainApp where
  "stale_MainApp =
     \<lparr> view = View_form, trees = [stale_tree], editingTree = None, isBulkUploading = False,
       bulkUploadProgress = None \<rparr>"

definition empty_sessionStorage :: "string Storage" where
  "empty_sessionStorage = \<lparr> denied = False, accepts = (\<lambda>v. True), items = (\<lambda>k. None) \<rparr>"

definition full_sessionStorage :: "string Storage" where
  "full_sessionStorage = \<lparr> denied = False, accepts = (\<lambda>v. False), items = (\<lambda>k. None) \<rparr>"

section \<open>Properties\<close>

subsection \<open>Adding and updating records\<close>

lemma trees_handleAddTree:
  "trees (handleAddTree E now n s) =
     \<lparr> species = NewTreeData.species n, dbh = dbh n, height = height n,
       condition = NewTreeData.condition n, proximityToBuilding = proximityToBuilding n,
       tree_notes = tree_notes n, photo = photo n, latitude = NewTreeData.latitude n,
       longitude = NewTreeData.longitude n, inventoryDate = inventoryDate n,
       tree_id = now,
       carbon = calculateCarbonMetrics E (dbh n) (height n) (NewTreeData.condition n),
       ecosystemServices =
         calculateEcosystemServices E (dbh n) (proximityToBuilding n) (NewTreeData.condition n) \<rparr>
     # trees s"
  by (simp add: handleAddTree_def Let_def)

lemma trees_handleUpdateTree:
  "trees (handleUpdateTree E u s) =
     map (\<lambda>t. if tree_id t = tree_id u then finalTree E u else t) (trees s)"
  by (simp add: handleUpdateTree_def finalTree_def Let_def)

lemma nth_trees_handleUpdateTree:
  "i < length (trees s) \<Longrightarrow>
   trees (handleUpdateTree E u s) ! i =
     (if tree_id (trees s ! i) = tree_id u then finalTree E u else trees s ! i)"
  by (simp add: trees_handleUpdateTree)

lemma handleUpdateTree_twice:
  "handleUpdateTree E u (handleUpdateTree E u s) = handleUpdateTree E u s"
  by (simp add: handleUpdateTree_def Let_def)

lemma finalTree_consistent: "derived_consistent E (finalTree E u)"
  by (simp add: derived_consistent_def finalTree_def)

lemma tree_id_finalTree: "tree_id (finalTree E u) = tree_id u"
  by (simp add: finalTree_def)

lemma finalTree_same:
  "same_measurements a b \<Longrightarrow>
   carbon (finalTree E a) = carbon (finalTree E b) \<and>
   ecosystemServices (finalTree E a) = ecosystemServices (finalTree E b)"
  by (simp add: same_measurements_def finalTree_def)

lemma finalTree_of_consistent:
  "same_measurements u t \<Longrightarrow> derived_consistent E t \<Longrightarrow>
   carbon (finalTree E u) = carbon t \<and> ecosystemServices (finalTree E u) = ecosystemServices t"
  by (simp add: same_measurements_def finalTree_def derived_consistent_def)

lemma createTree_consistent:
  "derived_consistent E (createTree E toISO i sp d h c p nt ps lat lon date)"
  by (simp add: derived_consistent_def createTree_def Let_def)

subsection \<open>The bulk upload\<close>

lemma bulk_tree_consistent: "derived_consistent E (bulk_tree E f b a)"
  by (simp add: derived_consistent_def bulk_tree_def Let_def)

lemma analyze_file_consistent: "analyze_file E f b = Inr t \<Longrightarrow> derived_consistent E t"
  by (auto simp: analyze_file_def bulk_tree_consistent split: sum.splits option.splits if_splits)

lemma try_block_consistent: "try_block E f = Resolved t \<Longrightarrow> derived_consistent E t"
  by (auto simp: try_block_def analyze_file_consistent split: promise.splits sum.splits)

lemma settles_try_block: "settles (try_block E f) = settles (compressImage f)"
  by (simp add: try_block_def split: promise.splits sum.splits)

lemma new_trees_consistent: "t \<in> set (new_trees E fs) \<Longrightarrow> derived_consistent E t"
  by (induction fs) (auto simp: try_block_consistent split: promise.splits)

lemma new_lengths:
  "list_all (\<lambda>f. settles (compressImage f)) fs \<Longrightarrow>
   length (new_trees E fs) + length (new_failures E fs) = length fs"
proof (induction fs)
  case Nil
  then show ?case by simp
next
  case (Cons f fs)
  then have "settles (try_block E f)" by (simp add: settles_try_block)
  with Cons show ?case by (cases "try_block E f") simp_all
qed

lemma new_trees_append: "new_trees E (fs @ gs) = new_trees E fs @ new_trees E gs"
  by (induction fs) (auto split: promise.splits)

lemma new_failures_append: "new_failures E (fs @ gs) = new_failures E fs @ new_failures E gs"
  by (induction fs) (auto split: promise.splits)

lemma handled_files_settle: "list_all (\<lambda>f. settles (compressImage f)) (handled_files fs)"
  by (induction fs) (auto simp: handled_files_def)

lemma handled_files_all:
  "list_all (\<lambda>f. settles (compressImage f)) fs \<Longrightarrow> handled_files fs = fs"
  by (induction fs) (auto simp: handled_files_def)

lemma handled_files_Cons:
  "handled_files (f # fs) = (if settles (try_block E f) then f # handled_files fs else [])"
  by (simp add: handled_files_def settles_try_block)

lemma bulk_loop_trees:
  "trees (outcome_state (bulk_loop E s fs)) = rev (new_trees E (handled_files fs)) @ trees s"
proof (induction fs arbitrary: s)
  case Nil
  then show ?case by (simp add: handled_files_def)
next
  case (Cons f fs)
  show ?case
    by (cases "try_block E f")
      (simp_all add: Cons handled_files_Cons [of f fs E] bulk_step_def Let_def)
qed

lemma bulk_loop_progress:
  "bulkUploadProgress s = Some p \<Longrightarrow>
   bulkUploadProgress (outcome_state (bulk_loop E s fs)) =
     Some (p \<lparr> processed := processed p + length (handled_files fs),
               successes := successes p + length (new_trees E (handled_files fs)),
               failures := failures p @ new_failures E (handled_files fs) \<rparr>)"
proof (induction fs arbitrary: s p)
  case Nil
  then show ?case by (simp add: handled_files_def)
next
  case (Cons f fs)
  show ?case
  proof (cases "try_block E f")
    case (Resolved t)
    have "bulkUploadProgress (bulk_step s f (Inr t)) =
        Some (p \<lparr> successes := successes p + 1, processed := processed p + 1 \<rparr>)"
      using Cons.prems by (simp add: bulk_step_def Let_def)
    from Cons.IH [OF this] Resolved show ?thesis
      by (simp add: handled_files_Cons [of f fs E])
  next
    case (Rejected e)
    have "bulkUploadProgress (bulk_step s f (Inl e)) =
        Some (p \<lparr> failures := failures p @ [\<lparr> fileName = name f, error = error_message e \<rparr>],
                  processed := processed p + 1 \<rparr>)"
      using Cons.prems by (simp add: bulk_step_def Let_def)
    from Cons.IH [OF this] Rejected show ?thesis
      by (simp add: handled_files_Cons [of f fs E])
  next
    case Pending
    with Cons.prems show ?thesis
      by (simp add: handled_files_Cons [of f fs E])
  qed
qed

lemma bulk_loop_returns:
  "list_all (\<lambda>f. settles (compressImage f)) fs \<Longrightarrow>
   bulk_loop E s fs = Returned (outcome_state (bulk_loop E s fs))"
proof (induction fs arbitrary: s)
  case Nil
  then show ?case by simp
next
  case (Cons f fs)
  then have "settles (try_block E f)" by (simp add: settles_try_block)
  with Cons show ?case by (cases "try_block E f") simp_all
qed

lemma trees_handleBulkUpload:
  "trees (outcome_state (handleBulkUpload E files s)) =
     rev (new_trees E (handled_files files)) @ trees s"
  by (simp add: handleBulkUpload_def bulk_loop_trees)

lemma progress_handleBulkUpload:
  "bulkUploadProgress (outcome_state (handleBulkUpload E files s)) =
     Some \<lparr> total_files = length files, processed = length (handled_files files),
            successes = length (new_trees E (handled_files files)),
            failures = new_failures E (handled_files files) \<rparr>"
  by (simp add: handleBulkUpload_def bulk_loop_progress)

text \<open>
  When the image of every file loads, the bulk upload returns, every file is counted as
  processed, and each is either a success or a failure entry.
\<close>

lemma handleBulkUpload_returns:
  assumes "list_all (\<lambda>f. settles (compressImage f)) files"
  shows "handleBulkUpload E files s = Returned (outcome_state (handleBulkUpload E files s))"
    and "bulkUploadProgress (outcome_state (handleBulkUpload E files s)) =
       Some \<lparr> total_files = length files, processed = length files,
              successes = length (new_trees E files), failures = new_failures E files \<rparr>"
    and "length (new_trees E files) + length (new_failures E files) = length files"
    and "trees (outcome_state (handleBulkUpload E files s)) = rev (new_trees E files) @ trees s"
proof -
  show "handleBulkUpload E files s = Returned (outcome_state (handleBulkUpload E files s))"
    unfolding handleBulkUpload_def using assms by (rule bulk_loop_returns)
  show "bulkUploadProgress (outcome_state (handleBulkUpload E files s)) =
       Some \<lparr> total_files = length files, processed = length files,
              successes = length (new_trees E files), failures = new_failures E files \<rparr>"
    using assms by (simp add: progress_handleBulkUpload handled_files_all)
  show "length (new_trees E files) + length (new_failures E files) = length files"
    using assms by (rule new_lengths)
  show "trees (outcome_state (handleBulkUpload E files s)) = rev (new_trees E files) @ trees s"
    using assms by (simp add: trees_handleBulkUpload handled_files_all)
qed

subsection \<open>Storage\<close>

lemma persist_trees_ok:
  "\<not> denied ls \<Longrightarrow> accepts ls (JSON_stringify ts) \<Longrightarrow>
   persist_trees ts ls = ls \<lparr> items := (items ls)(treeInventoryData := Some (JSON_stringify ts)) \<rparr>"
  by (simp add: persist_trees_def setItem_def)

lemma persist_trees_refused:
  "denied ls \<or> \<not> accepts ls (JSON_stringify ts) \<Longrightarrow> persist_trees ts ls = ls"
  by (auto simp: persist_trees_def setItem_def)

lemma load_trees_stored:
  "\<not> denied ls \<Longrightarrow> items ls treeInventoryData = Some (JSON_stringify ts) \<Longrightarrow>
   load_trees E toISO ls = Inr (ts, ls)"
  by (simp add: load_trees_def load_try_def getItem_def JSON_stringify_def)

lemma load_trees_Inr_storage:
  "load_trees E toISO ls = Inr (ts, ls') \<Longrightarrow> \<not> denied ls' \<and> accepts ls' = accepts ls"
  by (auto simp: load_trees_def load_try_def getItem_def removeItem_def
      split: sum.splits option.splits if_splits json_value.splits)

lemma load_trees_accessible:
  "\<not> denied ls \<Longrightarrow> \<exists>ts ls'. load_trees E toISO ls = Inr (ts, ls')"
  by (simp add: load_trees_def load_try_def getItem_def removeItem_def
      split: sum.splits option.splits json_value.splits)

text \<open>
  When every access to the storage raises, the \<open>catch\<close> block of the initializer raises
  again, from its own call of \<open>removeItem\<close>.
\<close>

lemma load_trees_denied: "denied ls \<Longrightarrow> load_trees E toISO ls = Inl SecurityError"
  by (simp add: load_trees_def load_try_def getItem_def removeItem_def)

text \<open>
  When \<open>getItem\<close> returns no value, a value that \<open>JSON.parse\<close> rejects, or a value that
  parses to something that is not an array, the initializer returns the seed dataset. A
  non-empty text that does not parse is removed from the storage; in the other cases the
  storage is not touched. Mounting then writes the loaded collection under the key, when the
  storage accepts it. Whatever is stored, the initializer returns a collection when the
  storage can be accessed.
\<close>

lemma load_trees_fallback:
  "(getItem ls treeInventoryData = Inr None \<longrightarrow>
      load_trees E toISO ls = Inr (initialTrees E toISO, ls)) \<and>
   (getItem ls treeInventoryData = Inr (Some item) \<and> JSON_parse item = Inl e \<longrightarrow>
      load_trees E toISO ls =
        Inr (initialTrees E toISO,
             if truthy item then ls \<lparr> items := (items ls)(treeInventoryData := None) \<rparr> else ls)) \<and>
   (getItem ls treeInventoryData = Inr (Some item) \<and> JSON_parse item = Inr Json_other \<longrightarrow>
      load_trees E toISO ls = Inr (initialTrees E toISO, ls)) \<and>
   (load_trees E toISO ls = Inr (ts, ls') \<and> accepts ls (JSON_stringify ts) \<longrightarrow>
      (\<exists>ls''. mount_MainApp E toISO ls = Inr (ts, ls'') \<and>
         items ls'' treeInventoryData = Some (JSON_stringify ts))) \<and>
   (\<not> denied ls \<longrightarrow> (\<exists>ts' ls'. load_trees E toISO ls = Inr (ts', ls')))"
proof -
  have total: "\<not> denied ls \<longrightarrow> (\<exists>ts' ls'. load_trees E toISO ls = Inr (ts', ls'))"
    using load_trees_accessible [of ls E toISO] by blast
  have absent: "getItem ls treeInventoryData = Inr None \<longrightarrow>
      load_trees E toISO ls = Inr (initialTrees E toISO, ls)"
    by (simp add: load_trees_def load_try_def)
  have malformed: "getItem ls treeInventoryData = Inr (Some item) \<and> JSON_parse item = Inl e \<longrightarrow>
      load_trees E toISO ls =
        Inr (initialTrees E toISO,
             if truthy item then ls \<lparr> items := (items ls)(treeInventoryData := None) \<rparr> else ls)"
    by (auto simp: load_trees_def load_try_def getItem_def removeItem_def split: if_splits)
  have other: "getItem ls treeInventoryData = Inr (Some item) \<and> JSON_parse item = Inr Json_other \<longrightarrow>
      load_trees E toISO ls = Inr (initialTrees E toISO, ls)"
    by (cases item) (auto simp: load_trees_def load_try_def)
  have mount: "load_trees E toISO ls = Inr (ts, ls') \<and> accepts ls (JSON_stringify ts) \<longrightarrow>
      (\<exists>ls''. mount_MainApp E toISO ls = Inr (ts, ls'') \<and>
         items ls'' treeInventoryData = Some (JSON_stringify ts))"
  proof
    assume h: "load_trees E toISO ls = Inr (ts, ls') \<and> accepts ls (JSON_stringify ts)"
    then have "\<not> denied ls'" and "accepts ls' (JSON_stringify ts)"
      using load_trees_Inr_storage [of E toISO ls ts ls'] by simp_all
    then have "items (persist_trees ts ls') treeInventoryData = Some (JSON_stringify ts)"
      by (simp add: persist_trees_ok)
    with h show "\<exists>ls''. mount_MainApp E toISO ls = Inr (ts, ls'') \<and>
         items ls'' treeInventoryData = Some (JSON_stringify ts)"
      by (simp add: mount_MainApp_def)
  qed
  from absent malformed other mount total show ?thesis by blast
qed

subsection \<open>Login\<close>

lemma handleLogin_wrong: "password \<noteq> ADMIN_PASSWORD \<Longrightarrow> handleLogin password s = (False, s)"
  by (simp add: handleLogin_def)

lemma wrong_logins_run:
  "\<forall>e \<in> set evs. \<exists>p. e = Login p \<and> p \<noteq> ADMIN_PASSWORD \<Longrightarrow> App_run s evs = s"
  unfolding App_run_def
  by (induction evs arbitrary: s) (auto simp: handleLogin_wrong)

lemma App_step_keeps_session:
  "session_kept s \<Longrightarrow> e \<noteq> Logout \<Longrightarrow> session_kept (App_step s e)"
  by (cases e)
    (auto simp: session_kept_def handleLogin_def setItem_def session_check_def getItem_def
      App_initial_def isLoggedIn_def Let_def)

lemma App_run_keeps_session:
  "session_kept s \<Longrightarrow> Logout \<notin> set evs \<Longrightarrow> session_kept (App_run s evs)"
  unfolding App_run_def
  by (induction evs arbitrary: s) (auto simp: App_step_keeps_session)

lemma handleLogin_admin_session:
  "\<not> denied (sessionStorage s) \<Longrightarrow> accepts (sessionStorage s) ''true'' \<Longrightarrow>
   session_kept (snd (handleLogin ADMIN_PASSWORD s))"
  by (simp add: session_kept_def handleLogin_def setItem_def Let_def)

subsection \<open>Sample evaluation\<close>

lemma sample_update_biomass:
  "map (\<lambda>t. biomass (carbon t)) (trees (handleUpdateTree sample_Estimator sample_edit sample_MainApp))
     = [1500, 1440, 1100]"
  by (simp add: trees_handleUpdateTree finalTree_def sample_edit_def sample_tree_def
      sample_MainApp_def initialTrees_def createTree_def sample_Estimator_def Let_def)

lemma try_block_good_file:
  "try_block E good_file =
     Resolved (bulk_tree E good_file ''data:image/jpeg;base64,BBBB''
       (sample_analysis \<lparr> TreeAnalysisResult.latitude := -6.9,
                          TreeAnalysisResult.longitude := 107.6 \<rparr>))"
  by (simp add: try_block_def compressImage_def analyze_file_def good_file_def
      sample_analysis_def locate_def)

lemma try_block_bad_file:
  "try_block E bad_file = Rejected (new_Error ''AI tidak dapat mengestimasi dimensi.'')"
  by (simp add: try_block_def compressImage_def analyze_file_def bad_file_def sample_analysis_def)

lemma try_block_broken_file: "try_block E broken_file = Pending"
  by (simp add: try_block_def compressImage_def broken_file_def)

section \<open>The claims\<close>

text \<open>
  C1. Every record that add (\<open>handleAddTree\<close>), update (\<open>handleUpdateTree\<close>), the bulk import
  (\<open>handleBulkUpload\<close>) or the seed dataset (\<open>createTree\<close>) places in the collection has
  derived fields equal to \<open>calculateCarbonMetrics (dbh, height, condition)\<close> and
  \<open>calculateEcosystemServices (dbh, proximityToBuilding, condition)\<close> of its own measurements.
  The seed records are consistent. After an add the collection is a new record followed by
  the old collection, and the new record has the measurements given and consistent derived
  fields. After an update the collection has the same length; at every position whose
  record had the identifier of the edited record stands the edited record, with all its
  fields as edited and both derived fields recomputed from the edited measurements, and
  every other position is as before. After a bulk import the collection is the new records
  followed by the old collection, and every new record is consistent. The persist effect
  that follows an update writes that recomputed collection.
\<close>

theorem derived_fields_recomputed:
  "list_all (derived_consistent E) (initialTrees E toISO) \<and>
   (\<exists>t. trees (handleAddTree E now n s) = t # trees s \<and> same_measurements t n \<and>
        derived_consistent E t) \<and>
   length (trees (handleUpdateTree E u s)) = length (trees s) \<and>
   (\<forall>i < length (trees s).
      trees (handleUpdateTree E u s) ! i =
        (if tree_id (trees s ! i) = tree_id u
         then u \<lparr> carbon := calculateCarbonMetrics E (dbh u) (height u) (NewTreeData.condition u),
                  ecosystemServices :=
                    calculateEcosystemServices E (dbh u) (proximityToBuilding u)
                      (NewTreeData.condition u) \<rparr>
         else trees s ! i)) \<and>
   derived_consistent E
     (u \<lparr> carbon := calculateCarbonMetrics E (dbh u) (height u) (NewTreeData.condition u),
          ecosystemServices :=
            calculateEcosystemServices E (dbh u) (proximityToBuilding u)
              (NewTreeData.condition u) \<rparr>) \<and>
   trees (outcome_state (handleBulkUpload E files s)) =
     rev (new_trees E (handled_files files)) @ trees s \<and>
   list_all (derived_consistent E) (new_trees E (handled_files files)) \<and>
   (\<not> denied ls \<and> accepts ls (JSON_stringify (trees (handleUpdateTree E u s))) \<longrightarrow>
      items (persist_trees (trees (handleUpdateTree E u s)) ls) treeInventoryData =
        Some (Json_text (Json_array
          (map (\<lambda>t. if tree_id t = tree_id u
                    then u \<lparr> carbon :=
                               calculateCarbonMetrics E (dbh u) (height u) (NewTreeData.condition u),
                             ecosystemServices :=
                               calculateEcosystemServices E (dbh u) (proximityToBuilding u)
                                 (NewTreeData.condition u) \<rparr>
                    else t)
             (trees s)))))"
proof -
  have seed: "list_all (derived_consistent E) (initialTrees E toISO)"
    by (simp add: initialTrees_def createTree_consistent)
  have add: "\<exists>t. trees (handleAddTree E now n s) = t # trees s \<and> same_measurements t n \<and>
        derived_consistent E t"
    by (simp add: trees_handleAddTree same_measurements_def derived_consistent_def)
  have len: "length (trees (handleUpdateTree E u s)) = length (trees s)"
    by (simp add: trees_handleUpdateTree)
  have upd: "\<forall>i < length (trees s).
      trees (handleUpdateTree E u s) ! i =
        (if tree_id (trees s ! i) = tree_id u
         then u \<lparr> carbon := calculateCarbonMetrics E (dbh u) (height u) (NewTreeData.condition u),
                  ecosystemServices :=
                    calculateEcosystemServices E (dbh u) (proximityToBuilding u)
                      (NewTreeData.condition u) \<rparr>
         else trees s ! i)"
    by (simp add: nth_trees_handleUpdateTree finalTree_def)
  have fin: "derived_consistent E
     (u \<lparr> carbon := calculateCarbonMetrics E (dbh u) (height u) (NewTreeData.condition u),
          ecosystemServices :=
            calculateEcosystemServices E (dbh u) (proximityToBuilding u)
              (NewTreeData.condition u) \<rparr>)"
    using finalTree_consistent [of E u] by (simp add: finalTree_def)
  have bulk: "trees (outcome_state (handleBulkUpload E files s)) =
     rev (new_trees E (handled_files files)) @ trees s"
    by (rule trees_handleBulkUpload)
  have bulk_ok: "list_all (derived_consistent E) (new_trees E (handled_files files))"
    by (simp add: list_all_iff new_trees_consistent)
  have pers: "\<not> denied ls \<and> accepts ls (JSON_stringify (trees (handleUpdateTree E u s))) \<longrightarrow>
      items (persist_trees (trees (handleUpdateTree E u s)) ls) treeInventoryData =
        Some (Json_text (Json_array
          (map (\<lambda>t. if tree_id t = tree_id u
                    then u \<lparr> carbon :=
                               calculateCarbonMetrics E (dbh u) (height u) (NewTreeData.condition u),
                             ecosystemServices :=
                               calculateEcosystemServices E (dbh u) (proximityToBuilding u)
                                 (NewTreeData.condition u) \<rparr>
                    else t)
             (trees s))))"
    by (simp add: persist_trees_def setItem_def JSON_stringify_def trees_handleUpdateTree
        finalTree_def)
  from seed add len upd fin bulk bulk_ok pers show ?thesis by blast
qed

theorem derived_fields_recomputed_witness:
  "list_all (derived_consistent sample_Estimator) (initialTrees sample_Estimator sample_toISOString) \<and>
   dbh (trees (handleUpdateTree sample_Estimator sample_edit sample_MainApp) ! 1) = 48 \<and>
   carbon (trees (handleUpdateTree sample_Estimator sample_edit sample_MainApp) ! 1) =
     \<lparr> biomass = 1440, carbonStored = 720, co2Sequestrated = 2880 \<rparr> \<and>
   trees (handleUpdateTree sample_Estimator sample_edit sample_MainApp) ! 0 =
     trees sample_MainApp ! 0 \<and>
   trees (outcome_state (handleBulkUpload sample_Estimator [good_file, bad_file] sample_MainApp)) =
     bulk_tree sample_Estimator good_file ''data:image/jpeg;base64,BBBB''
       (sample_analysis \<lparr> TreeAnalysisResult.latitude := -6.9,
                          TreeAnalysisResult.longitude := 107.6 \<rparr>)
     # trees sample_MainApp \<and>
   items (persist_trees (trees (handleUpdateTree sample_Estimator sample_edit sample_MainApp))
            empty_localStorage) treeInventoryData =
     Some (Json_text (Json_array (trees (handleUpdateTree sample_Estimator sample_edit sample_MainApp))))"
proof -
  note w = derived_fields_recomputed [where E = sample_Estimator and toISO = sample_toISOString
      and now = 1700000000000 and n = sample_new and s = sample_MainApp and u = sample_edit
      and files = "[good_file, bad_file]" and ls = empty_localStorage]
  have len: "length (trees sample_MainApp) = 3"
    by (simp add: sample_MainApp_def initialTrees_def)
  have id1: "tree_id (trees sample_MainApp ! 1) = tree_id sample_edit"
    by (simp add: sample_MainApp_def initialTrees_def createTree_def sample_edit_def
        sample_tree_def Let_def)
  have id0: "tree_id (trees sample_MainApp ! 0) \<noteq> tree_id sample_edit"
    by (simp add: sample_MainApp_def initialTrees_def createTree_def sample_edit_def
        sample_tree_def Let_def)
  have seed: "list_all (derived_consistent sample_Estimator)
      (initialTrees sample_Estimator sample_toISOString)"
    using w by blast
  from w len have n1: "trees (handleUpdateTree sample_Estimator sample_edit sample_MainApp) ! 1 =
      (if tree_id (trees sample_MainApp ! 1) = tree_id sample_edit
       then sample_edit \<lparr> carbon := calculateCarbonMetrics sample_Estimator (dbh sample_edit)
                (height sample_edit) (NewTreeData.condition sample_edit),
              ecosystemServices := calculateEcosystemServices sample_Estimator (dbh sample_edit)
                (proximityToBuilding sample_edit) (NewTreeData.condition sample_edit) \<rparr>
       else trees sample_MainApp ! 1)"
    by simp
  with id1 have d1: "dbh (trees (handleUpdateTree sample_Estimator sample_edit sample_MainApp) ! 1) = 48"
    and c1: "carbon (trees (handleUpdateTree sample_Estimator sample_edit sample_MainApp) ! 1) =
      \<lparr> biomass = 1440, carbonStored = 720, co2Sequestrated = 2880 \<rparr>"
    by (simp_all add: sample_edit_def sample_tree_def createTree_def sample_Estimator_def Let_def)
  from w len have "trees (handleUpdateTree sample_Estimator sample_edit sample_MainApp) ! 0 =
      (if tree_id (trees sample_MainApp ! 0) = tree_id sample_edit
       then sample_edit \<lparr> carbon := calculateCarbonMetrics sample_Estimator (dbh sample_edit)
                (height sample_edit) (NewTreeData.condition sample_edit),
              ecosystemServices := calculateEcosystemServices sample_Estimator (dbh sample_edit)
                (proximityToBuilding sample_edit) (NewTreeData.condition sample_edit) \<rparr>
       else trees sample_MainApp ! 0)"
    by simp
  with id0 have n0: "trees (handleUpdateTree sample_Estimator sample_edit sample_MainApp) ! 0 =
      trees sample_MainApp ! 0"
    by simp
  have h: "handled_files [good_file, bad_file] = [good_file, bad_file]"
    by (simp add: handled_files_def compressImage_def good_file_def bad_file_def)
  have b: "trees (outcome_state (handleBulkUpload sample_Estimator [good_file, bad_file]
        sample_MainApp)) =
      bulk_tree sample_Estimator good_file ''data:image/jpeg;base64,BBBB''
        (sample_analysis \<lparr> TreeAnalysisResult.latitude := -6.9,
                           TreeAnalysisResult.longitude := 107.6 \<rparr>)
      # trees sample_MainApp"
    using w h by (simp add: try_block_good_file try_block_bad_file)
  have p: "items (persist_trees (trees (handleUpdateTree sample_Estimator sample_edit sample_MainApp))
            empty_localStorage) treeInventoryData =
     Some (Json_text (Json_array (trees (handleUpdateTree sample_Estimator sample_edit sample_MainApp))))"
    using w by (simp add: empty_localStorage_def trees_handleUpdateTree finalTree_def)
  from seed d1 c1 n0 b p show ?thesis by blast
qed

text \<open>
  C3, as stated: running \<open>handleUpdateTree\<close> on a record whose four measurements are
  unchanged leaves its derived fields unchanged. It fails for a record that the initializer
  loaded from the storage with derived fields other than those the Estimator gives: saving
  the record as it is recomputes them, so they change.
\<close>

theorem update_unchanged_counterexample:
  "load_trees sample_Estimator sample_toISOString stale_localStorage =
     Inr (trees stale_MainApp, stale_localStorage) \<and>
   trees stale_MainApp ! 0 = stale_tree \<and>
   carbon (trees (handleUpdateTree sample_Estimator stale_tree stale_MainApp) ! 0) \<noteq>
     carbon (trees stale_MainApp ! 0)"
  by (simp add: load_trees_def load_try_def getItem_def stale_localStorage_def treeInventoryData_def
      stale_MainApp_def trees_handleUpdateTree finalTree_def stale_tree_def sample_tree_def
      createTree_def sample_Estimator_def Let_def)

text \<open>
  C3, amended: the Estimator, modelled from the spec as two functions, gives equal outputs
  on equal inputs, and the derived fields that an add computes depend on the measurements
  only, not on the time, the state or the other fields. Running \<open>handleUpdateTree\<close> again
  with the same record changes nothing, and running it again with a record of the same
  identifier and measurements leaves every derived field of the collection as it is. An
  update of a stored record that keeps its measurements leaves the derived fields at its
  position unchanged exactly when the stored derived fields were those the Estimator gives
  on its measurements; otherwise they are recomputed.
\<close>

theorem update_unchanged_measurements:
  "handleUpdateTree E u (handleUpdateTree E u s) = handleUpdateTree E u s \<and>
   (d = d' \<and> h = h' \<and> c = c' \<and> p = p' \<longrightarrow>
      calculateCarbonMetrics E d h c = calculateCarbonMetrics E d' h' c' \<and>
      calculateEcosystemServices E d p c = calculateEcosystemServices E d' p' c') \<and>
   (same_measurements n n' \<longrightarrow>
      carbon (hd (trees (handleAddTree E now n s))) =
        carbon (hd (trees (handleAddTree E now' n' s'))) \<and>
      ecosystemServices (hd (trees (handleAddTree E now n s))) =
        ecosystemServices (hd (trees (handleAddTree E now' n' s')))) \<and>
   (tree_id u' = tree_id u \<and> same_measurements u' u \<longrightarrow>
      map carbon (trees (handleUpdateTree E u' (handleUpdateTree E u s))) =
        map carbon (trees (handleUpdateTree E u s)) \<and>
      map ecosystemServices (trees (handleUpdateTree E u' (handleUpdateTree E u s))) =
        map ecosystemServices (trees (handleUpdateTree E u s))) \<and>
   (\<forall>i < length (trees s).
      tree_id (trees s ! i) = tree_id u \<and> same_measurements u (trees s ! i) \<longrightarrow>
        (carbon (trees (handleUpdateTree E u s) ! i) = carbon (trees s ! i) \<and>
         ecosystemServices (trees (handleUpdateTree E u s) ! i) = ecosystemServices (trees s ! i))
        = derived_consistent E (trees s ! i))"
proof -
  have a: "handleUpdateTree E u (handleUpdateTree E u s) = handleUpdateTree E u s"
    by (rule handleUpdateTree_twice)
  have e: "d = d' \<and> h = h' \<and> c = c' \<and> p = p' \<longrightarrow>
      calculateCarbonMetrics E d h c = calculateCarbonMetrics E d' h' c' \<and>
      calculateEcosystemServices E d p c = calculateEcosystemServices E d' p' c'"
    by simp
  have f: "same_measurements n n' \<longrightarrow>
      carbon (hd (trees (handleAddTree E now n s))) =
        carbon (hd (trees (handleAddTree E now' n' s'))) \<and>
      ecosystemServices (hd (trees (handleAddTree E now n s))) =
        ecosystemServices (hd (trees (handleAddTree E now' n' s')))"
    by (simp add: trees_handleAddTree same_measurements_def)
  have b: "tree_id u' = tree_id u \<and> same_measurements u' u \<longrightarrow>
      map carbon (trees (handleUpdateTree E u' (handleUpdateTree E u s))) =
        map carbon (trees (handleUpdateTree E u s)) \<and>
      map ecosystemServices (trees (handleUpdateTree E u' (handleUpdateTree E u s))) =
        map ecosystemServices (trees (handleUpdateTree E u s))"
    by (auto simp: trees_handleUpdateTree tree_id_finalTree dest: finalTree_same)
  have g: "\<forall>i < length (trees s).
      tree_id (trees s ! i) = tree_id u \<and> same_measurements u (trees s ! i) \<longrightarrow>
        (carbon (trees (handleUpdateTree E u s) ! i) = carbon (trees s ! i) \<and>
         ecosystemServices (trees (handleUpdateTree E u s) ! i) = ecosystemServices (trees s ! i))
        = derived_consistent E (trees s ! i)"
    by (auto simp: nth_trees_handleUpdateTree finalTree_def same_measurements_def
        derived_consistent_def)
  from a e f b g show ?thesis by blast
qed

theorem update_unchanged_measurements_witness:
  "map carbon (trees (handleUpdateTree sample_Estimator (sample_edit \<lparr> tree_notes := ''lagi'' \<rparr>)
       (handleUpdateTree sample_Estimator sample_edit sample_MainApp))) =
     map carbon (trees (handleUpdateTree sample_Estimator sample_edit sample_MainApp)) \<and>
   carbon (trees (handleUpdateTree sample_Estimator (sample_tree \<lparr> tree_notes := ''lagi'' \<rparr>)
       sample_MainApp) ! 1) = carbon (trees sample_MainApp ! 1) \<and>
   \<not> derived_consistent sample_Estimator (trees stale_MainApp ! 0)"
proof -
  note w = update_unchanged_measurements [where E = sample_Estimator
      and n = sample_new and n' = sample_new and now = 1 and now' = 2 and s' = sample_MainApp
      and d = 1 and d' = 1 and h = 1 and h' = 1 and c = HEALTHY and c' = HEALTHY
      and p = Near and p' = Near]
  have m: "same_measurements (sample_edit \<lparr> tree_notes := ''lagi'' \<rparr>) sample_edit"
    by (simp add: same_measurements_def)
  have first: "map carbon (trees (handleUpdateTree sample_Estimator
        (sample_edit \<lparr> tree_notes := ''lagi'' \<rparr>)
        (handleUpdateTree sample_Estimator sample_edit sample_MainApp))) =
      map carbon (trees (handleUpdateTree sample_Estimator sample_edit sample_MainApp))"
    using m w [where s = sample_MainApp and u = sample_edit
        and u' = "sample_edit \<lparr> tree_notes := ''lagi'' \<rparr>"]
    by simp
  have len: "1 < length (trees sample_MainApp)"
    by (simp add: sample_MainApp_def initialTrees_def)
  have stored: "trees sample_MainApp ! 1 = sample_tree"
    by (simp add: sample_MainApp_def initialTrees_def sample_tree_def)
  have cons: "derived_consistent sample_Estimator sample_tree"
    by (simp add: sample_tree_def createTree_consistent)
  have same: "same_measurements (sample_tree \<lparr> tree_notes := ''lagi'' \<rparr>) sample_tree"
    by (simp add: same_measurements_def)
  have second: "carbon (trees (handleUpdateTree sample_Estimator
        (sample_tree \<lparr> tree_notes := ''lagi'' \<rparr>) sample_MainApp) ! 1) =
      carbon (trees sample_MainApp ! 1)"
    using len stored cons same
      w [where s = sample_MainApp and u = "sample_tree \<lparr> tree_notes := ''lagi'' \<rparr>"
        and u' = sample_tree,
        THEN conjunct2, THEN conjunct2, THEN conjunct2, THEN conjunct2, rule_format, of 1]
    by simp
  have len0: "0 < length (trees stale_MainApp)"
    by (simp add: stale_MainApp_def)
  have stored0: "trees stale_MainApp ! 0 = stale_tree"
    by (simp add: stale_MainApp_def)
  have same0: "same_measurements stale_tree stale_tree"
    by (simp add: same_measurements_def)
  have changed: "carbon (trees (handleUpdateTree sample_Estimator stale_tree stale_MainApp) ! 0) \<noteq>
      carbon (trees stale_MainApp ! 0)"
    by (simp add: stale_MainApp_def trees_handleUpdateTree finalTree_def stale_tree_def
        sample_tree_def createTree_def sample_Estimator_def Let_def)
  have third: "\<not> derived_consistent sample_Estimator (trees stale_MainApp ! 0)"
    using len0 stored0 same0 changed
      w [where s = stale_MainApp and u = stale_tree and u' = stale_tree,
        THEN conjunct2, THEN conjunct2, THEN conjunct2, THEN conjunct2, rule_format, of 0]
    by auto
  from first second third show ?thesis by simp
qed

text \<open>
  C4. \<open>handleAddTree\<close> copies the fields of the given record, takes \<open>Date.now()\<close> as its
  identifier, fills the derived fields with the Estimator and puts the record in front of the
  old collection, which follows unchanged. A bulk import leaves the records it adds in front
  of the old collection too, the latest first: each success puts its record at the head.
\<close>

theorem add_prepends:
  "trees (handleAddTree E now n s) =
     \<lparr> species = NewTreeData.species n, dbh = dbh n, height = height n,
       condition = NewTreeData.condition n, proximityToBuilding = proximityToBuilding n,
       tree_notes = tree_notes n, photo = photo n, latitude = NewTreeData.latitude n,
       longitude = NewTreeData.longitude n, inventoryDate = inventoryDate n,
       tree_id = now,
       carbon = calculateCarbonMetrics E (dbh n) (height n) (NewTreeData.condition n),
       ecosystemServices =
         calculateEcosystemServices E (dbh n) (proximityToBuilding n) (NewTreeData.condition n) \<rparr>
     # trees s \<and>
   trees (outcome_state (handleBulkUpload E files s)) =
     rev (new_trees E (handled_files files)) @ trees s \<and>
   (try_block E f = Resolved t \<longrightarrow> trees (bulk_loop_head E s f) = t # trees s)"
  by (simp add: trees_handleAddTree trees_handleBulkUpload bulk_loop_head_def bulk_step_def Let_def)

theorem add_prepends_witness:
  "trees (outcome_state (bulk_loop sample_Estimator sample_MainApp [good_file])) =
     bulk_tree sample_Estimator good_file ''data:image/jpeg;base64,BBBB''
       (sample_analysis \<lparr> TreeAnalysisResult.latitude := -6.9,
                          TreeAnalysisResult.longitude := 107.6 \<rparr>)
     # trees sample_MainApp \<and>
   hd (trees (handleAddTree sample_Estimator 1700000000000 sample_new sample_MainApp)) =
     \<lparr> species = ''Mangga'', dbh = 30, height = 12, condition = HEALTHY,
       proximityToBuilding = Far, tree_notes = ''halaman'', photo = ''data:image/jpeg;base64,AAAA'',
       latitude = -6.2, longitude = 106.8, inventoryDate = ''2024-01-01T00:00:00.000Z'',
       tree_id = 1700000000000,
       carbon = \<lparr> biomass = 360, carbonStored = 180, co2Sequestrated = 720 \<rparr>,
       ecosystemServices =
         \<lparr> stormwaterInterceptedLiters = 300, airPollutionRemovedGrams = 90, energySavingsIDR = 0,
           annualMonetaryValue =
             \<lparr> total = 120, AnnualMonetaryValue.carbon = 30, stormwater = 30, airQuality = 30,
               energy = 30 \<rparr> \<rparr> \<rparr>"
  using try_block_good_file [of sample_Estimator]
    add_prepends [where E = sample_Estimator and now = 1700000000000 and n = sample_new
      and s = sample_MainApp and files = "[good_file]" and f = good_file
      and t = "bulk_tree sample_Estimator good_file ''data:image/jpeg;base64,BBBB''
           (sample_analysis \<lparr> TreeAnalysisResult.latitude := -6.9,
                              TreeAnalysisResult.longitude := 107.6 \<rparr>)"]
  by (simp add: sample_new_def sample_Estimator_def bulk_loop_head_def)

text \<open>
  C5. \<open>handleUpdateTree\<close> keeps the length of the collection; at every position it leaves the
  record as it is when its identifier differs from that of the edited record, and puts the
  edited record with recomputed derived fields there when the identifier matches; the
  identifiers stay where they were.
\<close>

theorem update_in_place:
  "length (trees (handleUpdateTree E u s)) = length (trees s) \<and>
   (\<forall>i < length (trees s).
      trees (handleUpdateTree E u s) ! i =
        (if tree_id (trees s ! i) = tree_id u then finalTree E u else trees s ! i)) \<and>
   map tree_id (trees (handleUpdateTree E u s)) = map tree_id (trees s)"
  by (simp add: trees_handleUpdateTree tree_id_finalTree)

theorem update_in_place_witness:
  "trees (handleUpdateTree sample_Estimator sample_edit sample_MainApp) ! 1 =
     finalTree sample_Estimator sample_edit \<and>
   trees (handleUpdateTree sample_Estimator sample_edit sample_MainApp) ! 0 =
     trees sample_MainApp ! 0 \<and>
   length (trees (handleUpdateTree sample_Estimator sample_edit sample_MainApp)) = 3"
proof -
  note u = update_in_place [of sample_Estimator sample_edit sample_MainApp]
  have len: "length (trees sample_MainApp) = 3"
    by (simp add: sample_MainApp_def initialTrees_def)
  have id1: "tree_id (trees sample_MainApp ! 1) = tree_id sample_edit"
    by (simp add: sample_MainApp_def initialTrees_def createTree_def sample_edit_def
        sample_tree_def Let_def)
  have id0: "tree_id (trees sample_MainApp ! 0) \<noteq> tree_id sample_edit"
    by (simp add: sample_MainApp_def initialTrees_def createTree_def sample_edit_def
        sample_tree_def Let_def)
  from u len have n1: "trees (handleUpdateTree sample_Estimator sample_edit sample_MainApp) ! 1 =
      (if tree_id (trees sample_MainApp ! 1) = tree_id sample_edit
       then finalTree sample_Estimator sample_edit else trees sample_MainApp ! 1)"
    by simp
  from u len have n0: "trees (handleUpdateTree sample_Estimator sample_edit sample_MainApp) ! 0 =
      (if tree_id (trees sample_MainApp ! 0) = tree_id sample_edit
       then finalTree sample_Estimator sample_edit else trees sample_MainApp ! 0)"
    by simp
  from u len n1 n0 id1 id0 show ?thesis by simp
qed

text \<open>
  C6, as stated: persisting any collection and reloading gives the collection back. It
  fails when \<open>setItem\<close> raises (the quota is exceeded): the effect catches and logs the
  error, the storage keeps what it held, and the reload returns that, here the seed.
\<close>

theorem persist_load_roundtrip_counterexample:
  "load_trees sample_Estimator sample_toISOString (persist_trees [sample_edit] full_localStorage) =
     Inr (initialTrees sample_Estimator sample_toISOString, full_localStorage) \<and>
   initialTrees sample_Estimator sample_toISOString \<noteq> [sample_edit]"
  by (simp add: persist_trees_def setItem_def full_localStorage_def load_trees_def load_try_def
      getItem_def initialTrees_def)

text \<open>
  C6, amended: when the storage can be accessed and accepts the serialised collection,
  persisting and then reloading returns the collection, in the same order, and leaves the
  storage as persisted; when the write is refused, the storage is left as it was.
\<close>

theorem persist_load_roundtrip:
  "(\<not> denied ls \<and> accepts ls (JSON_stringify ts) \<longrightarrow>
      load_trees E toISO (persist_trees ts ls) = Inr (ts, persist_trees ts ls)) \<and>
   (denied ls \<or> \<not> accepts ls (JSON_stringify ts) \<longrightarrow> persist_trees ts ls = ls)"
  by (auto simp: persist_trees_ok load_trees_stored persist_trees_refused)

theorem persist_load_roundtrip_witness:
  "load_trees sample_Estimator sample_toISOString
     (persist_trees [sample_edit, sample_tree] empty_localStorage) =
     Inr ([sample_edit, sample_tree], persist_trees [sample_edit, sample_tree] empty_localStorage) \<and>
   persist_trees [sample_edit, sample_tree] full_localStorage = full_localStorage"
  using persist_load_roundtrip [where ls = empty_localStorage and ts = "[sample_edit, sample_tree]"
      and E = sample_Estimator and toISO = sample_toISOString]
    persist_load_roundtrip [where ls = full_localStorage and ts = "[sample_edit, sample_tree]"
      and E = sample_Estimator and toISO = sample_toISOString]
  by (simp add: empty_localStorage_def full_localStorage_def)

text \<open>
  C7. The claim says that the load never throws. When access to \<open>localStorage\<close> raises,
  \<open>getItem\<close> raises inside the \<open>try\<close> block, and the \<open>catch\<close> block raises again from its own
  call of \<open>removeItem\<close>, which stands outside any \<open>try\<close>: the initializer, and with it the
  mounting of \<open>MainApp\<close>, throws instead of returning the seed dataset.
\<close>

theorem load_trees_throws:
  "getItem denied_localStorage treeInventoryData = Inl SecurityError \<and>
   load_trees sample_Estimator sample_toISOString denied_localStorage = Inl SecurityError \<and>
   mount_MainApp sample_Estimator sample_toISOString denied_localStorage = Inl SecurityError"
  by (simp add: mount_MainApp_def load_trees_def load_try_def getItem_def removeItem_def
      denied_localStorage_def)

text \<open>
  C8. The claim fails on a file whose image does not load: \<open>compressImage\<close> installs no
  \<open>onerror\<close> handler on the image, its promise stays pending, and \<open>handleBulkUpload\<close> never
  returns from the \<open>await\<close>. For the three files \<open>a.jpg\<close> (a success), \<open>c.jpg\<close> (not an image)
  and \<open>b.jpg\<close> the call does not return; the progress stays at one processed file of three,
  no failure is recorded for \<open>c.jpg\<close>, and \<open>b.jpg\<close> is never looked at.
\<close>

theorem bulk_upload_never_returns:
  "handleBulkUpload sample_Estimator [good_file, broken_file, bad_file] sample_MainApp =
     Never_returns
       (outcome_state
          (handleBulkUpload sample_Estimator [good_file, broken_file, bad_file] sample_MainApp)) \<and>
   bulkUploadProgress
     (outcome_state
        (handleBulkUpload sample_Estimator [good_file, broken_file, bad_file] sample_MainApp)) =
     Some \<lparr> total_files = 3, processed = 1, successes = 1, failures = [] \<rparr>"
  by (simp add: handleBulkUpload_def try_block_good_file try_block_broken_file bulk_step_def
      Let_def sample_MainApp_def)

text \<open>
  C9, as stated: the correct password sets and persists the session flag. It fails when the
  session storage refuses the write: \<open>handleLogin\<close> catches and logs the error, returns
  \<open>true\<close> with the flag set in the component only, and after a reload the session check
  finds nothing, with no logout in between.
\<close>

theorem login_persists_counterexample:
  "fst (handleLogin ADMIN_PASSWORD (App_initial full_sessionStorage)) = True \<and>
   items (sessionStorage (snd (handleLogin ADMIN_PASSWORD (App_initial full_sessionStorage))))
     isLoggedIn = None \<and>
   isAuthenticated (App_run (snd (handleLogin ADMIN_PASSWORD (App_initial full_sessionStorage)))
     [Reload]) = False"
  by (simp add: handleLogin_def setItem_def App_initial_def full_sessionStorage_def App_run_def
      session_check_def getItem_def Let_def)

text \<open>
  C9, amended: a password other than the admin password makes \<open>handleLogin\<close> return
  \<open>false\<close> and leaves the state as it is, so no sequence of such attempts sets the flag. The
  admin password makes it return \<open>true\<close> and sets the flag of the component. When the session
  storage can be accessed and accepts the value, the flag is stored under the key too, and
  through any login attempts and reloads without a logout the component stays authenticated
  and the stored flag stays. When the write is refused, the error is caught and the session
  storage is left as it was, so the flag is not persisted. \<open>handleLogout\<close> clears the flag of
  the component, and the stored flag when the storage can be accessed.
\<close>

theorem login_sets_flag:
  "(password \<noteq> ADMIN_PASSWORD \<longrightarrow> handleLogin password s = (False, s)) \<and>
   ((\<forall>e \<in> set wrong. \<exists>p. e = Login p \<and> p \<noteq> ADMIN_PASSWORD) \<longrightarrow> App_run s wrong = s) \<and>
   fst (handleLogin ADMIN_PASSWORD s) \<and>
   isAuthenticated (snd (handleLogin ADMIN_PASSWORD s)) \<and>
   (\<not> denied (sessionStorage s) \<and> accepts (sessionStorage s) ''true'' \<longrightarrow>
      sessionStorage (snd (handleLogin ADMIN_PASSWORD s)) =
        (sessionStorage s) \<lparr> items := (items (sessionStorage s))(isLoggedIn := Some ''true'') \<rparr>) \<and>
   (\<not> denied (sessionStorage s) \<and> accepts (sessionStorage s) ''true'' \<and> Logout \<notin> set evs \<longrightarrow>
      isAuthenticated (App_run (snd (handleLogin ADMIN_PASSWORD s)) evs) \<and>
      items (sessionStorage (App_run (snd (handleLogin ADMIN_PASSWORD s)) evs)) isLoggedIn =
        Some ''true'') \<and>
   (denied (sessionStorage s) \<or> \<not> accepts (sessionStorage s) ''true'' \<longrightarrow>
      sessionStorage (snd (handleLogin ADMIN_PASSWORD s)) = sessionStorage s) \<and>
   \<not> isAuthenticated (handleLogout s) \<and>
   (\<not> denied (sessionStorage s) \<longrightarrow> items (sessionStorage (handleLogout s)) isLoggedIn = None)"
proof -
  have w: "password \<noteq> ADMIN_PASSWORD \<longrightarrow> handleLogin password s = (False, s)"
    by (simp add: handleLogin_wrong)
  have ws: "(\<forall>e \<in> set wrong. \<exists>p. e = Login p \<and> p \<noteq> ADMIN_PASSWORD) \<longrightarrow> App_run s wrong = s"
    using wrong_logins_run [of wrong s] by blast
  have a: "fst (handleLogin ADMIN_PASSWORD s) \<and> isAuthenticated (snd (handleLogin ADMIN_PASSWORD s))"
    by (simp add: handleLogin_def Let_def)
  have st: "\<not> denied (sessionStorage s) \<and> accepts (sessionStorage s) ''true'' \<longrightarrow>
      sessionStorage (snd (handleLogin ADMIN_PASSWORD s)) =
        (sessionStorage s) \<lparr> items := (items (sessionStorage s))(isLoggedIn := Some ''true'') \<rparr>"
    by (simp add: handleLogin_def setItem_def Let_def)
  have k: "\<not> denied (sessionStorage s) \<and> accepts (sessionStorage s) ''true'' \<and> Logout \<notin> set evs \<longrightarrow>
      isAuthenticated (App_run (snd (handleLogin ADMIN_PASSWORD s)) evs) \<and>
      items (sessionStorage (App_run (snd (handleLogin ADMIN_PASSWORD s)) evs)) isLoggedIn =
        Some ''true''"
    using App_run_keeps_session [OF handleLogin_admin_session, of s evs]
    by (auto simp: session_kept_def)
  have r: "denied (sessionStorage s) \<or> \<not> accepts (sessionStorage s) ''true'' \<longrightarrow>
      sessionStorage (snd (handleLogin ADMIN_PASSWORD s)) = sessionStorage s"
    by (auto simp: handleLogin_def setItem_def Let_def)
  have l: "\<not> isAuthenticated (handleLogout s) \<and>
   (\<not> denied (sessionStorage s) \<longrightarrow> items (sessionStorage (handleLogout s)) isLoggedIn = None)"
    by (simp add: handleLogout_def removeItem_def Let_def)
  from w ws a st k r l show ?thesis by blast
qed

theorem login_sets_flag_witness:
  "handleLogin ''admin'' (App_initial empty_sessionStorage) = (False, App_initial empty_sessionStorage) \<and>
   isAuthenticated (App_run (snd (handleLogin ADMIN_PASSWORD (App_initial empty_sessionStorage)))
     [Login ''admin'', Reload, Login ADMIN_PASSWORD, Reload]) \<and>
   sessionStorage (snd (handleLogin ADMIN_PASSWORD (App_initial full_sessionStorage))) =
     full_sessionStorage \<and>
   \<not> isAuthenticated (handleLogout (snd (handleLogin ADMIN_PASSWORD (App_initial empty_sessionStorage))))"
  using login_sets_flag [where password = "''admin''" and s = "App_initial empty_sessionStorage"
      and wrong = "[]" and evs = "[Login ''admin'', Reload, Login ADMIN_PASSWORD, Reload]"]
    login_sets_flag [where password = "''admin''" and s = "App_initial full_sessionStorage"
      and wrong = "[]" and evs = "[]"]
    login_sets_flag [where password = "''admin''"
      and s = "snd (handleLogin ADMIN_PASSWORD (App_initial empty_sessionStorage))"
      and wrong = "[]" and evs = "[]"]
  by (simp add: ADMIN_PASSWORD_def App_initial_def empty_sessionStorage_def
      full_sessionStorage_def)

text \<open>
  C10. The ecosystem services of a record do not depend on its height: two adds, two
  updates or two seed records that differ only in the height give the same
  \<open>ecosystemServices\<close>.
\<close>

theorem ecosystemServices_independent_of_height:
  "ecosystemServices (hd (trees (handleAddTree E now (n \<lparr> height := ha \<rparr>) s))) =
     ecosystemServices (hd (trees (handleAddTree E now (n \<lparr> height := hb \<rparr>) s))) \<and>
   map ecosystemServices (trees (handleUpdateTree E (u \<lparr> height := ha \<rparr>) s)) =
     map ecosystemServices (trees (handleUpdateTree E (u \<lparr> height := hb \<rparr>) s)) \<and>
   ecosystemServices (createTree E toISO i sp d ha c p nt ps lat lon date) =
     ecosystemServices (createTree E toISO i sp d hb c p nt ps lat lon date)"
  by (simp add: trees_handleAddTree trees_handleUpdateTree finalTree_def createTree_def Let_def)

theorem ecosystemServices_independent_of_height_witness:
  "ecosystemServices (hd (trees (handleAddTree sample_Estimator 1 (sample_new \<lparr> height := 12 \<rparr>)
       sample_MainApp))) =
     ecosystemServices (hd (trees (handleAddTree sample_Estimator 1 (sample_new \<lparr> height := 40 \<rparr>)
       sample_MainApp))) \<and>
   map ecosystemServices
       (trees (handleUpdateTree sample_Estimator (sample_edit \<lparr> height := 12 \<rparr>) sample_MainApp)) =
     map ecosystemServices
       (trees (handleUpdateTree sample_Estimator (sample_edit \<lparr> height := 40 \<rparr>) sample_MainApp))"
  using ecosystemServices_independent_of_height [where E = sample_Estimator and now = 1
      and n = sample_new and ha = 12 and hb = 40 and s = sample_MainApp and u = sample_edit]
  by simp

end
